theory Spec2Isabelle
  imports Complex_Main
begin

section \<open>JavaScript values\<close>

text \<open>
  The front end is plain JavaScript. Its functions receive arbitrary values, so the
  model works over a datatype of JavaScript data: the primitives, arrays and plain
  objects (what an object literal or \<open>JSON.parse\<close> produces). Strings are lists of
  code units below 256. A finite number is a rational; \<open>NaN\<close> and the infinities are
  separate values.
\<close>

datatype jsnum = NaN | PosInf | NegInf | Fin rat

datatype jsval =
    JUndefined
  | JNull
  | JBool bool
  | JNum jsnum
  | JStr string
  | JArr "jsval list"
  | JObj "(string \<times> jsval) list"

text \<open>
  Values that are thrown: an instance of the repository's class \<open>ApiError\<close>
  (message, status, details), or another error object with its \<open>name\<close> and
  \<open>message\<close> (\<open>Error\<close>, \<open>TypeError\<close>, \<open>SyntaxError\<close>, the \<open>AbortError\<close> of an aborted
  fetch).
\<close>

datatype thrown =
    ApiError string int jsval
  | JsError string string

text \<open>
  The wording of the messages of errors raised by the engine itself is the engine's
  own; the model uses V8's.
\<close>

definition not_a_function :: "string \<Rightarrow> thrown" where
  "not_a_function what = JsError ''TypeError'' (what @ '' is not a function'')"

definition cannot_read :: "jsval \<Rightarrow> string \<Rightarrow> thrown" where
  "cannot_read v k = JsError ''TypeError''
     (''Cannot read properties of '' @ (if v = JNull then ''null'' else ''undefined'')
        @ '' (reading '' @ [CHR 0x27] @ k @ [CHR 0x27] @ '')'')"

definition cannot_convert :: thrown where
  "cannot_convert = JsError ''TypeError'' ''Cannot convert object to primitive value''"

text \<open>
  What the engine does with numbers and text is a parameter: \<open>Number::toString\<close> and
  the parse of a string as a number (\<open>StringToNumber\<close>).
\<close>

record engine =
  NumberToString :: "jsnum \<Rightarrow> string"
  StringToNumber :: "string \<Rightarrow> jsnum"

text \<open>Sequencing of computations that may throw.\<close>

definition andThen :: "thrown + 'a \<Rightarrow> ('a \<Rightarrow> thrown + 'b) \<Rightarrow> thrown + 'b" where
  "andThen m f = (case m of Inl e \<Rightarrow> Inl e | Inr x \<Rightarrow> f x)"

subsection \<open>Conversions\<close>

text \<open>\<open>ToBoolean\<close>: what \<open>!v\<close>, \<open>v || w\<close> and \<open>v ? a : b\<close> test.\<close>

fun truthy :: "jsval \<Rightarrow> bool" where
  "truthy JUndefined = False"
| "truthy JNull = False"
| "truthy (JBool b) = b"
| "truthy (JNum NaN) = False"
| "truthy (JNum (Fin q)) = (q \<noteq> 0)"
| "truthy (JNum _) = True"
| "truthy (JStr s) = (s \<noteq> [])"
| "truthy (JArr _) = True"
| "truthy (JObj _) = True"

fun typeof :: "jsval \<Rightarrow> string" where
  "typeof JUndefined = ''undefined''"
| "typeof JNull = ''object''"
| "typeof (JBool _) = ''boolean''"
| "typeof (JNum _) = ''number''"
| "typeof (JStr _) = ''string''"
| "typeof (JArr _) = ''object''"
| "typeof (JObj _) = ''object''"

fun join_strings :: "string \<Rightarrow> string list \<Rightarrow> string" where
  "join_strings sep [] = []"
| "join_strings sep [s] = s"
| "join_strings sep (s # t # ss) = s @ sep @ join_strings sep (t # ss)"

text \<open>
  \<open>ToString\<close>. An array is joined with commas, \<open>undefined\<close> and \<open>null\<close> elements giving
  the empty string (\<open>element_strings\<close> converts the elements, left to right). A plain
  object inherits \<open>Object.prototype.toString\<close>; when it has an own property \<open>toString\<close>
  (which, being data, is not callable) the conversion finds no primitive and throws.
\<close>

fun ToString :: "engine \<Rightarrow> jsval \<Rightarrow> thrown + string"
  and element_strings :: "engine \<Rightarrow> jsval list \<Rightarrow> thrown + string list" where
  "ToString E JUndefined = Inr ''undefined''"
| "ToString E JNull = Inr ''null''"
| "ToString E (JBool b) = Inr (if b then ''true'' else ''false'')"
| "ToString E (JNum n) = Inr (NumberToString E n)"
| "ToString E (JStr s) = Inr s"
| "ToString E (JArr xs) =
     (case element_strings E xs of Inl e \<Rightarrow> Inl e | Inr ss \<Rightarrow> Inr (join_strings '','' ss))"
| "ToString E (JObj kvs) =
     (if map_of kvs ''toString'' \<noteq> None then Inl cannot_convert
      else Inr ''[object Object]'')"
| "element_strings E [] = Inr []"
| "element_strings E (x # xs) =
     (case (if x = JUndefined \<or> x = JNull then Inr [] else ToString E x) of
        Inl e \<Rightarrow> Inl e
      | Inr s \<Rightarrow> (case element_strings E xs of Inl e \<Rightarrow> Inl e | Inr ss \<Rightarrow> Inr (s # ss)))"

text \<open>\<open>Array.prototype.join\<close> with a separator.\<close>

definition array_join :: "engine \<Rightarrow> jsval list \<Rightarrow> string \<Rightarrow> thrown + string" where
  "array_join E xs sep =
     (case element_strings E xs of Inl e \<Rightarrow> Inl e | Inr ss \<Rightarrow> Inr (join_strings sep ss))"

text \<open>\<open>ToNumber\<close>; an array or object is first converted to a string.\<close>

fun ToNumber :: "engine \<Rightarrow> jsval \<Rightarrow> thrown + jsnum" where
  "ToNumber E JUndefined = Inr NaN"
| "ToNumber E JNull = Inr (Fin 0)"
| "ToNumber E (JBool b) = Inr (Fin (if b then 1 else 0))"
| "ToNumber E (JNum n) = Inr n"
| "ToNumber E (JStr s) = Inr (StringToNumber E s)"
| "ToNumber E v = (case ToString E v of Inl e \<Rightarrow> Inl e | Inr s \<Rightarrow> Inr (StringToNumber E s))"

fun num_less :: "jsnum \<Rightarrow> jsnum \<Rightarrow> bool" where
  "num_less NaN _ = False"
| "num_less _ NaN = False"
| "num_less (Fin x) (Fin y) = (x < y)"
| "num_less NegInf NegInf = False"
| "num_less NegInf _ = True"
| "num_less _ NegInf = False"
| "num_less PosInf _ = False"
| "num_less _ PosInf = True"

text \<open>\<open>v < n\<close> and \<open>v > n\<close> for a number literal \<open>n\<close>.\<close>

definition js_lt :: "engine \<Rightarrow> jsval \<Rightarrow> rat \<Rightarrow> thrown + bool" where
  "js_lt E v n = (case ToNumber E v of Inl e \<Rightarrow> Inl e | Inr x \<Rightarrow> Inr (num_less x (Fin n)))"

definition js_gt :: "engine \<Rightarrow> jsval \<Rightarrow> rat \<Rightarrow> thrown + bool" where
  "js_gt E v n = (case ToNumber E v of Inl e \<Rightarrow> Inl e | Inr x \<Rightarrow> Inr (num_less (Fin n) x))"

text \<open>
  Reading a data property: \<open>v.k\<close>. Reading from \<open>undefined\<close> or \<open>null\<close> throws; strings
  and arrays have \<open>length\<close>; a plain object has its own properties; anything else
  reads as \<open>undefined\<close>. (The keys read by the program are \<open>nombre\<close>, \<open>email\<close>,
  \<open>password\<close>, \<open>detalles\<close>, \<open>error\<close> and \<open>length\<close>; none is inherited from a prototype
  as data.)
\<close>

fun get_prop :: "jsval \<Rightarrow> string \<Rightarrow> thrown + jsval" where
  "get_prop JUndefined k = Inl (cannot_read JUndefined k)"
| "get_prop JNull k = Inl (cannot_read JNull k)"
| "get_prop (JStr s) k =
     Inr (if k = ''length'' then JNum (Fin (of_nat (length s))) else JUndefined)"
| "get_prop (JArr xs) k =
     Inr (if k = ''length'' then JNum (Fin (of_nat (length xs))) else JUndefined)"
| "get_prop (JObj kvs) k = Inr (case map_of kvs k of None \<Rightarrow> JUndefined | Some v \<Rightarrow> v)"
| "get_prop _ k = Inr JUndefined"

text \<open>\<open>Number.isInteger\<close>.\<close>

fun Number_isInteger :: "jsval \<Rightarrow> bool" where
  "Number_isInteger (JNum (Fin q)) = (of_int \<lfloor>q\<rfloor> = q)"
| "Number_isInteger _ = False"

section \<open>Strings\<close>

text \<open>White space and line terminators, as \<open>String.prototype.trim\<close> strips them.\<close>

definition is_space :: "char \<Rightarrow> bool" where
  "is_space c = (c \<in> set [CHR 0x09, CHR 0x0A, CHR 0x0B, CHR 0x0C, CHR 0x0D, CHR 0x20, CHR 0xA0])"

definition trim :: "string \<Rightarrow> string" where
  "trim s = rev (dropWhile is_space (rev (dropWhile is_space s)))"

fun startsWith :: "string \<Rightarrow> string \<Rightarrow> bool" where
  "startsWith s [] = True"
| "startsWith [] (p # ps) = False"
| "startsWith (c # cs) (p # ps) = (c = p \<and> startsWith cs ps)"

definition endsWith :: "string \<Rightarrow> string \<Rightarrow> bool" where
  "endsWith s p = startsWith (rev s) (rev p)"

fun str_includes :: "string \<Rightarrow> string \<Rightarrow> bool" where
  "str_includes [] p = (p = [])"
| "str_includes (c # cs) p = (startsWith (c # cs) p \<or> str_includes cs p)"

text \<open>\<open>s.split(sep)\<close> for a separator of one character.\<close>

fun split :: "string \<Rightarrow> char \<Rightarrow> string list" where
  "split [] sep = [[]]"
| "split (c # cs) sep =
     (if c = sep then [] # split cs sep
      else (case split cs sep of [] \<Rightarrow> [[c]] | p # ps \<Rightarrow> (c # p) # ps))"

section \<open>Regular expressions\<close>

text \<open>
  The fragment of the regular-expression language that the email pattern uses: a
  character class of single characters and ranges, a literal character, sequence,
  \<open>+\<close>, \<open>*\<close>, \<open>?\<close> and the bounded repetition \<open>{0,n}\<close>. \<open>Nul\<close> (no string), \<open>Eps\<close> (the empty
  string) and \<open>Alt\<close> only arise while matching.
\<close>

datatype citem = Ch char | Rng char char

datatype regex =
    Nul
  | Eps
  | Cls "citem list"
  | Lit char
  | Seq regex regex
  | Alt regex regex
  | Plus regex
  | Star regex
  | Opt regex
  | Upto nat regex

fun in_item :: "char \<Rightarrow> citem \<Rightarrow> bool" where
  "in_item c (Ch d) = (c = d)"
| "in_item c (Rng a b) = ((of_char a :: nat) \<le> of_char c \<and> (of_char c :: nat) \<le> of_char b)"

definition in_class :: "char \<Rightarrow> citem list \<Rightarrow> bool" where
  "in_class c items = list_ex (in_item c) items"

text \<open>
  Matching a whole string (the pattern is anchored with \<open>^\<close> and \<open>$\<close> and has no
  flags) by derivatives: \<open>nullable r\<close> says that \<open>r\<close> matches the empty string,
  \<open>deriv c r\<close> matches what \<open>r\<close> matches after a leading \<open>c\<close>.
\<close>

fun nullable :: "regex \<Rightarrow> bool" where
  "nullable Nul = False"
| "nullable Eps = True"
| "nullable (Cls items) = False"
| "nullable (Lit d) = False"
| "nullable (Seq r s) = (nullable r \<and> nullable s)"
| "nullable (Alt r s) = (nullable r \<or> nullable s)"
| "nullable (Plus r) = nullable r"
| "nullable (Star r) = True"
| "nullable (Opt r) = True"
| "nullable (Upto n r) = True"

fun deriv :: "char \<Rightarrow> regex \<Rightarrow> regex" where
  "deriv c Nul = Nul"
| "deriv c Eps = Nul"
| "deriv c (Cls items) = (if in_class c items then Eps else Nul)"
| "deriv c (Lit d) = (if c = d then Eps else Nul)"
| "deriv c (Seq r s) =
     (if nullable r then Alt (Seq (deriv c r) s) (deriv c s) else Seq (deriv c r) s)"
| "deriv c (Alt r s) = Alt (deriv c r) (deriv c s)"
| "deriv c (Plus r) = Seq (deriv c r) (Star r)"
| "deriv c (Star r) = Seq (deriv c r) (Star r)"
| "deriv c (Opt r) = deriv c r"
| "deriv c (Upto n r) = (if n = 0 then Nul else Seq (deriv c r) (Upto (n - 1) r))"

fun regex_test :: "regex \<Rightarrow> string \<Rightarrow> bool" where
  "regex_test r [] = nullable r"
| "regex_test r (c # cs) = regex_test (deriv c r) cs"

text \<open>
  What a pattern means: the set of strings it matches. The matcher above is checked
  against this meaning below (\<open>regex_test_iff\<close>).
\<close>

definition conc :: "string set \<Rightarrow> string set \<Rightarrow> string set" where
  "conc A B = {u @ v | u v. u \<in> A \<and> v \<in> B}"

inductive_set star :: "string set \<Rightarrow> string set" for A :: "string set" where
  star_empty: "[] \<in> star A"
| star_step: "u \<in> A \<Longrightarrow> v \<in> star A \<Longrightarrow> u @ v \<in> star A"

fun at_most :: "nat \<Rightarrow> string set \<Rightarrow> string set" where
  "at_most 0 A = {[]}"
| "at_most (Suc n) A = insert [] (conc A (at_most n A))"

fun lang :: "regex \<Rightarrow> string set" where
  "lang Nul = {}"
| "lang Eps = {[]}"
| "lang (Cls items) = {[c] | c. in_class c items}"
| "lang (Lit d) = {[d]}"
| "lang (Seq r s) = conc (lang r) (lang s)"
| "lang (Alt r s) = lang r \<union> lang s"
| "lang (Plus r) = conc (lang r) (star (lang r))"
| "lang (Star r) = star (lang r)"
| "lang (Opt r) = insert [] (lang r)"
| "lang (Upto n r) = at_most n (lang r)"

section \<open>api.js: validation\<close>

text \<open>
  The pattern of \<open>esEmailValido\<close>:
  \<^verbatim>\<open>/^[a-zA-Z0-9.!#$%&'*+\/=?^_`{|}~-]+@[a-zA-Z0-9](?:[a-zA-Z0-9-]{0,61}[a-zA-Z0-9])?(?:\.[a-zA-Z0-9](?:[a-zA-Z0-9-]{0,61}[a-zA-Z0-9])?)*$/\<close>
\<close>

definition alnum :: "citem list" where
  "alnum = [Rng CHR ''a'' CHR ''z'', Rng CHR ''A'' CHR ''Z'', Rng CHR ''0'' CHR ''9'']"

definition local_chars :: "citem list" where
  "local_chars = alnum @
     [Ch CHR ''.'', Ch CHR ''!'', Ch CHR ''#'', Ch CHR ''$'', Ch CHR ''%'', Ch CHR ''&'',
      Ch (CHR 0x27), Ch CHR ''*'', Ch CHR ''+'', Ch CHR ''/'', Ch CHR ''='', Ch CHR ''?'',
      Ch CHR ''^'', Ch CHR ''_'', Ch (CHR 0x60), Ch CHR ''{'', Ch CHR ''|'', Ch CHR ''}'',
      Ch CHR ''~'', Ch CHR ''-'']"

definition label :: regex where
  "label = Seq (Cls alnum) (Opt (Seq (Upto 61 (Cls (alnum @ [Ch CHR ''-'']))) (Cls alnum)))"

definition email_regex :: regex where
  "email_regex =
     Seq (Plus (Cls local_chars))
       (Seq (Lit CHR ''@'') (Seq label (Star (Seq (Lit CHR ''.'') label))))"

text \<open>
  \<open>esEmailValido(email)\<close>. \<open>regex.test\<close> converts its argument to a string; \<open>split\<close>
  exists on strings only, so a value of another type that passes the pattern (an array
  holding one address) makes the call \<open>email.split('@')\<close> throw.
\<close>

definition esEmailValido :: "engine \<Rightarrow> jsval \<Rightarrow> thrown + bool" where
  "esEmailValido E email =
     (if \<not> truthy email then Inr False
      else andThen (get_prop email ''length'') (\<lambda>len.
           andThen (js_gt E len 254) (\<lambda>tooLong.
           if tooLong then Inr False
           else andThen (ToString E email) (\<lambda>subject.
             if \<not> regex_test email_regex subject then Inr False
             else (case email of
                 JStr e \<Rightarrow>
                   (let parts = split e CHR ''@'' in
                    if length parts \<noteq> 2 then Inr False
                    else
                      let localPart = parts ! 0; domain = parts ! 1 in
                      if length localPart > 64 then Inr False
                      else
                        let domainParts = split domain CHR ''.'' in
                        if length domainParts < 2 then Inr False
                        else
                          let tld = domainParts ! (length domainParts - 1) in
                          if length tld < 2 then Inr False
                          else if str_includes e ''..'' then Inr False
                          else if startsWith localPart ''.'' \<or> endsWith localPart ''.''
                            then Inr False
                          else Inr True)
               | _ \<Rightarrow> Inl (not_a_function ''email.split''))))))"

definition msg_nombre :: string where
  "msg_nombre = ''El nombre debe tener al menos 2 caracteres''"

definition msg_email :: string where
  "msg_email = ''El email no es v'' @ [CHR 0xE1] @ ''lido''"

definition msg_password_edicion :: string where
  "msg_password_edicion =
     ''La contrase'' @ [CHR 0xF1] @ ''a debe tener al menos 6 caracteres (o d'' @ [CHR 0xE9]
       @ ''jela vac'' @ [CHR 0xED] @ ''a para no cambiarla)''"

definition msg_password_creacion :: string where
  "msg_password_creacion =
     ''La contrase'' @ [CHR 0xF1] @ ''a es obligatoria y debe tener al menos 6 caracteres''"

text \<open>
  \<open>validarDatosUsuario(usuario, esEdicion)\<close>: returns nothing, or throws at the first
  check that fails. \<open>trim\<close> exists on strings only.
\<close>

definition validarDatosUsuario :: "engine \<Rightarrow> jsval \<Rightarrow> bool \<Rightarrow> thrown + unit" where
  "validarDatosUsuario E usuario esEdicion =
     andThen (get_prop usuario ''nombre'') (\<lambda>nombre.
     andThen (if \<not> truthy nombre then Inr True
              else (case nombre of
                      JStr n \<Rightarrow> Inr (length (trim n) < 2)
                    | _ \<Rightarrow> Inl (not_a_function ''usuario.nombre.trim''))) (\<lambda>nombreMalo.
     if nombreMalo then Inl (JsError ''Error'' msg_nombre)
     else
     andThen (get_prop usuario ''email'') (\<lambda>email.
     andThen (if \<not> truthy email then Inr True
              else andThen (esEmailValido E email) (\<lambda>valido. Inr (\<not> valido))) (\<lambda>emailMalo.
     if emailMalo then Inl (JsError ''Error'' msg_email)
     else
     andThen (get_prop usuario ''password'') (\<lambda>password.
     if esEdicion then
       andThen (if password \<noteq> JNull
                then andThen (get_prop password ''length'') (\<lambda>len. js_lt E len 6)
                else Inr False) (\<lambda>corta.
       if corta then Inl (JsError ''Error'' msg_password_edicion) else Inr ())
     else
       andThen (if \<not> truthy password then Inr True
                else andThen (get_prop password ''length'') (\<lambda>len. js_lt E len 6)) (\<lambda>corta.
       if corta then Inl (JsError ''Error'' msg_password_creacion) else Inr ()))))))"

section \<open>api.js: requests and responses\<close>

definition BASE_URL :: string where
  "BASE_URL = ''https://usuarios-mvgv.onrender.com/api/usuarios''"

definition HEADERS :: "(string \<times> string) list" where
  "HEADERS = [(''Content-Type'', ''application/json'')]"

definition TIMEOUT :: nat where
  "TIMEOUT = 10000"

text \<open>
  A \<open>Response\<close> as \<open>handleResponse\<close> sees it: the status, the \<open>content-type\<close> header
  (\<open>headers.get\<close> gives \<open>null\<close> when there is none), and what \<open>json()\<close> and \<open>text()\<close>
  settle to (\<open>json()\<close> rejects with a \<open>SyntaxError\<close> on a body that is not JSON).
\<close>

record response =
  status :: int
  content_type :: "string option"
  json_result :: "thrown + jsval"
  text_result :: "thrown + string"

definition ok :: "response \<Rightarrow> bool" where
  "ok r = (200 \<le> status r \<and> status r \<le> 299)"

text \<open>
  A request as passed to \<open>fetch\<close>. The body holds the value that \<open>JSON.stringify\<close>
  serialises.
\<close>

record request =
  req_method :: string
  req_url :: string
  req_headers :: "(string \<times> string) list"
  req_body :: "jsval option"

text \<open>
  The network: a request is answered after some milliseconds, fails after some
  milliseconds, or is never settled. \<open>fetch\<close> with an abort signal that fires after
  \<open>ms\<close> milliseconds rejects with an \<open>AbortError\<close> once the signal has fired.
\<close>

datatype net_reply = Responds nat response | Fails nat thrown | Hangs

type_synonym network = "request \<Rightarrow> net_reply"

definition abort_error :: thrown where
  "abort_error = JsError ''AbortError'' ''signal is aborted without reason''"

definition fetch :: "network \<Rightarrow> nat \<Rightarrow> request \<Rightarrow> thrown + response" where
  "fetch net ms req =
     (case net req of
        Responds t r \<Rightarrow> if t < ms then Inr r else Inl abort_error
      | Fails t e \<Rightarrow> if t < ms then Inl e else Inl abort_error
      | Hangs \<Rightarrow> Inl abort_error)"

fun error_name :: "thrown \<Rightarrow> string" where
  "error_name (ApiError message st details) = ''ApiError''"
| "error_name (JsError name message) = name"

definition msg_timeout :: string where
  "msg_timeout = ''La petici'' @ [CHR 0xF3] @ ''n excedi'' @ [CHR 0xF3] @ '' el tiempo de espera''"

definition handleResponse :: "engine \<Rightarrow> response \<Rightarrow> thrown + jsval" where
  "handleResponse E response =
     (if status response = 204 then Inr (JObj [(''success'', JBool True)])
      else
        let contentType = content_type response in
        andThen (if (case contentType of
                       None \<Rightarrow> False
                     | Some ct \<Rightarrow> ct \<noteq> [] \<and> str_includes ct ''application/json'')
                 then json_result response
                 else andThen (text_result response) (\<lambda>t. Inr (JStr t))) (\<lambda>data.
        if \<not> ok response then
          andThen (get_prop data ''detalles'') (\<lambda>detalles.
          andThen (if truthy detalles
                   then (case detalles of
                           JArr xs \<Rightarrow> andThen (array_join E xs '', '') (\<lambda>joined. Inr (JStr joined))
                         | _ \<Rightarrow> Inl (not_a_function ''data.detalles.join''))
                   else andThen (get_prop data ''error'') (\<lambda>err.
                          Inr (if truthy err then err else JStr ''Error desconocido'')))
            (\<lambda>errorMessage.
          andThen (ToString E errorMessage) (\<lambda>message.
          Inl (ApiError message (status response) data))))
        else Inr data))"

definition fetchWithTimeout :: "network \<Rightarrow> request \<Rightarrow> thrown + response" where
  "fetchWithTimeout net req =
     (case fetch net TIMEOUT req of
        Inr response \<Rightarrow> Inr response
      | Inl error \<Rightarrow>
          if error_name error = ''AbortError'' then Inl (ApiError msg_timeout 408 JNull)
          else Inl error)"

text \<open>
  The operations return the requests they passed to \<open>fetch\<close>, in order, and their
  outcome. \<open>Logger.error\<close> writes to the console only and is left out.
\<close>

definition num_le :: "jsnum \<Rightarrow> jsnum \<Rightarrow> bool" where
  "num_le a b = (a \<noteq> NaN \<and> b \<noteq> NaN \<and> \<not> num_less b a)"

definition js_le :: "engine \<Rightarrow> jsval \<Rightarrow> rat \<Rightarrow> thrown + bool" where
  "js_le E v n = (case ToNumber E v of Inl e \<Rightarrow> Inl e | Inr x \<Rightarrow> Inr (num_le x (Fin n)))"

definition msg_id :: "string \<Rightarrow> string \<Rightarrow> string" where
  "msg_id ty shown =
     ''El ID debe ser un n'' @ [CHR 0xFA] @ ''mero entero positivo. Recibido: '' @ ty
       @ '' ('' @ shown @ '')''"

text \<open>
  The guard that \<open>obtenerUsuarioPorId\<close>, \<open>actualizarUsuario\<close> and \<open>eliminarUsuario\<close> open
  with, \<open>!Number.isInteger(id) || id <= 0\<close>, and the \<open>TypeError\<close> they throw when it holds
  (the parameter \<open>id\<close> is written \<open>ident\<close>). Building the message converts the value to a
  string, which may itself throw.
\<close>

definition id_invalido :: "engine \<Rightarrow> jsval \<Rightarrow> thrown + bool" where
  "id_invalido E ident = (if \<not> Number_isInteger ident then Inr True else js_le E ident 0)"

definition id_type_error :: "engine \<Rightarrow> jsval \<Rightarrow> thrown" where
  "id_type_error E ident =
     (case ToString E ident of
        Inl e \<Rightarrow> e
      | Inr shown \<Rightarrow> JsError ''TypeError'' (msg_id (typeof ident) shown))"

definition obtenerUsuarios :: "engine \<Rightarrow> network \<Rightarrow> request list \<times> (thrown + jsval)" where
  "obtenerUsuarios E net =
     (let req = \<lparr>req_method = ''GET'', req_url = BASE_URL, req_headers = HEADERS, req_body = None\<rparr>
      in ([req], andThen (fetchWithTimeout net req) (handleResponse E)))"

definition obtenerUsuarioPorId ::
    "engine \<Rightarrow> network \<Rightarrow> jsval \<Rightarrow> request list \<times> (thrown + jsval)" where
  "obtenerUsuarioPorId E net ident =
     (case id_invalido E ident of
        Inl e \<Rightarrow> ([], Inl e)
      | Inr True \<Rightarrow> ([], Inl (id_type_error E ident))
      | Inr False \<Rightarrow>
          (case ToString E ident of
             Inl e \<Rightarrow> ([], Inl e)
           | Inr shown \<Rightarrow>
               let req = \<lparr>req_method = ''GET'', req_url = BASE_URL @ ''/'' @ shown,
                          req_headers = HEADERS, req_body = None\<rparr>
               in ([req], andThen (fetchWithTimeout net req) (handleResponse E))))"

definition crearUsuario ::
    "engine \<Rightarrow> network \<Rightarrow> jsval \<Rightarrow> request list \<times> (thrown + jsval)" where
  "crearUsuario E net usuario =
     (case validarDatosUsuario E usuario False of
        Inl e \<Rightarrow> ([], Inl e)
      | Inr _ \<Rightarrow>
          let req = \<lparr>req_method = ''POST'', req_url = BASE_URL, req_headers = HEADERS,
                     req_body = Some usuario\<rparr>
          in ([req], andThen (fetchWithTimeout net req) (handleResponse E)))"

definition actualizarUsuario ::
    "engine \<Rightarrow> network \<Rightarrow> jsval \<Rightarrow> jsval \<Rightarrow> request list \<times> (thrown + jsval)" where
  "actualizarUsuario E net ident usuario =
     (case id_invalido E ident of
        Inl e \<Rightarrow> ([], Inl e)
      | Inr True \<Rightarrow> ([], Inl (id_type_error E ident))
      | Inr False \<Rightarrow>
          (case validarDatosUsuario E usuario True of
             Inl e \<Rightarrow> ([], Inl e)
           | Inr _ \<Rightarrow>
               (case ToString E ident of
                  Inl e \<Rightarrow> ([], Inl e)
                | Inr shown \<Rightarrow>
                    let req = \<lparr>req_method = ''PUT'', req_url = BASE_URL @ ''/'' @ shown,
                               req_headers = HEADERS, req_body = Some usuario\<rparr>
                    in ([req], andThen (fetchWithTimeout net req) (handleResponse E)))))"

definition eliminarUsuario ::
    "engine \<Rightarrow> network \<Rightarrow> jsval \<Rightarrow> request list \<times> (thrown + jsval)" where
  "eliminarUsuario E net ident =
     (case id_invalido E ident of
        Inl e \<Rightarrow> ([], Inl e)
      | Inr True \<Rightarrow> ([], Inl (id_type_error E ident))
      | Inr False \<Rightarrow>
          (case ToString E ident of
             Inl e \<Rightarrow> ([], Inl e)
           | Inr shown \<Rightarrow>
               let req = \<lparr>req_method = ''DELETE'', req_url = BASE_URL @ ''/'' @ shown,
                          req_headers = HEADERS, req_body = None\<rparr>
               in ([req], andThen (fetchWithTimeout net req) (handleResponse E))))"

section \<open>ui.js\<close>

text \<open>The values of the form's inputs (\<open>DOM.nombre.value\<close> and so on).\<close>

record form =
  nombre_value :: string
  email_value :: string
  password_value :: string

definition obtenerDatosFormulario :: "form \<Rightarrow> jsval" where
  "obtenerDatosFormulario f =
     (let passwordValue = trim (password_value f)
      in JObj [(''nombre'', JStr (trim (nombre_value f))),
               (''email'', JStr (trim (email_value f))),
               (''password'', if passwordValue \<noteq> [] then JStr passwordValue else JNull)])"

text \<open>
  \<open>escaparHTML(texto)\<close> assigns \<open>texto\<close> to the \<open>textContent\<close> of a fresh \<open>div\<close> and reads
  its \<open>innerHTML\<close>. The setter takes \<open>null\<close> and \<open>undefined\<close> as the empty string and
  converts anything else to a string; the getter serialises the text node, which (HTML
  standard, escaping a string outside attribute mode) replaces \<open>&\<close>, the no-break
  space, \<open><\<close> and \<open>>\<close>, and nothing else.
\<close>

definition escape_char :: "char \<Rightarrow> string" where
  "escape_char c =
     (if c = CHR ''&'' then ''&amp;''
      else if c = CHR 0xA0 then ''&nbsp;''
      else if c = CHR ''<'' then ''&lt;''
      else if c = CHR ''>'' then ''&gt;''
      else [c])"

definition set_textContent :: "engine \<Rightarrow> jsval \<Rightarrow> thrown + string" where
  "set_textContent E v = (if v = JNull \<or> v = JUndefined then Inr [] else ToString E v)"

definition innerHTML :: "string \<Rightarrow> string" where
  "innerHTML textContent = concat (map escape_char textContent)"

definition escaparHTML :: "engine \<Rightarrow> jsval \<Rightarrow> thrown + string" where
  "escaparHTML E texto = andThen (set_textContent E texto) (\<lambda>t. Inr (innerHTML t))"

section \<open>app.js\<close>

text \<open>
  \<open>manejarError(error, mensajeGenerico)\<close> ends by calling
  \<open>UI.mostrarAlerta(mensaje, 'danger')\<close>; the model returns that call's arguments.
\<close>

definition manejarError :: "thrown \<Rightarrow> string \<Rightarrow> string \<times> string" where
  "manejarError error mensajeGenerico =
     (let mensaje =
        (case error of
           ApiError message st details \<Rightarrow>
             (if st = 400 then ''Error de validaci'' @ [CHR 0xF3] @ ''n: '' @ message
              else if st = 404 then ''Usuario no encontrado''
              else if st = 409 then message
              else if st = 500 then ''Error interno del servidor. Intente nuevamente.''
              else message)
         | JsError name message \<Rightarrow> if message \<noteq> [] then message else mensajeGenerico)
      in (mensaje, ''danger''))"

section \<open>Notions of the specification\<close>

text \<open>An integer strictly greater than zero.\<close>

definition positive_integer :: "jsval \<Rightarrow> bool" where
  "positive_integer v = (case v of JNum (Fin q) \<Rightarrow> of_int \<lfloor>q\<rfloor> = q \<and> 0 < q | _ \<Rightarrow> False)"

text \<open>
  The parts of an address: the local part is what precedes the first \<open>@\<close>, the domain
  what follows it, the final label of the domain what follows its last dot.
\<close>

definition local_part :: "string \<Rightarrow> string" where
  "local_part s = takeWhile (\<lambda>c. c \<noteq> CHR ''@'') s"

definition domain_part :: "string \<Rightarrow> string" where
  "domain_part s = drop 1 (dropWhile (\<lambda>c. c \<noteq> CHR ''@'') s)"

definition final_label :: "string \<Rightarrow> string" where
  "final_label d = rev (takeWhile (\<lambda>c. c \<noteq> CHR ''.'') (rev d))"

text \<open>The body of a response as \<open>handleResponse\<close> reads it: parsed JSON, or the raw text.\<close>

definition parsed_body :: "response \<Rightarrow> jsval \<Rightarrow> bool" where
  "parsed_body r data =
     (if (case content_type r of None \<Rightarrow> False | Some ct \<Rightarrow> str_includes ct ''application/json'')
      then json_result r = Inr data
      else (case text_result r of Inl e \<Rightarrow> False | Inr t \<Rightarrow> data = JStr t))"

text \<open>A thrown value that is a \<open>TypeError\<close>.\<close>

definition throws_TypeError :: "thrown + 'a \<Rightarrow> bool" where
  "throws_TypeError res = (case res of Inl e \<Rightarrow> error_name e = ''TypeError'' | Inr x \<Rightarrow> False)"

section \<open>An engine for the examples\<close>

text \<open>
  The theorems below hold for every engine. The closed examples run on this one, which
  writes a number as the decimal digits of its integer part and reads a string of
  decimal digits; it agrees with ECMAScript on the natural numbers below \<open>10\<^sup>2\<^sup>1\<close>, the
  only numbers the examples convert.
\<close>

fun digits :: "nat \<Rightarrow> string" where
  "digits n =
     (if n < 10 then [''0123456789'' ! n] else digits (n div 10) @ [''0123456789'' ! (n mod 10)])"

fun digits_value :: "string \<Rightarrow> nat \<Rightarrow> nat option" where
  "digits_value [] acc = Some acc"
| "digits_value (c # cs) acc =
     (if (48::nat) \<le> of_char c \<and> (of_char c :: nat) \<le> 57
      then digits_value cs (10 * acc + (of_char c - 48)) else None)"

definition decimal_engine :: engine where
  "decimal_engine =
     \<lparr>NumberToString = (\<lambda>n. case n of
          NaN \<Rightarrow> ''NaN'' | PosInf \<Rightarrow> ''Infinity'' | NegInf \<Rightarrow> ''-Infinity''
        | Fin q \<Rightarrow> (if q < 0 then ''-'' else []) @ digits (nat \<lfloor>\<bar>q\<bar>\<rfloor>)),
      StringToNumber = (\<lambda>s. case digits_value (trim s) 0 of
          None \<Rightarrow> NaN | Some n \<Rightarrow> Fin (of_nat n))\<rparr>"

section \<open>Basic facts\<close>

lemma andThen_Inl: "andThen (Inl e) f = Inl e"
  by (simp add: andThen_def)

lemma andThen_Inr: "andThen (Inr x) f = f x"
  by (simp add: andThen_def)

text \<open>The only error a conversion to a string raises is the \<open>TypeError\<close> of an object without a primitive value.\<close>

lemma ToString_throws:
  "ToString E v = Inl e \<Longrightarrow> e = cannot_convert"
  "element_strings E vs = Inl e \<Longrightarrow> e = cannot_convert"
  by (induction E v and E vs arbitrary: e and e rule: ToString_element_strings.induct)
     (auto split: sum.splits if_splits)

lemma element_strings_of_strings: "element_strings E (map JStr ds) = Inr ds"
  by (induction ds) simp_all

subsection \<open>Strings\<close>

lemma split_not_empty: "split s c \<noteq> []"
  by (induction s) (auto split: list.splits)

lemma split_length: "length (split s c) = Suc (count_list s c)"
  using split_not_empty by (induction s) (auto split: list.splits)

lemma split_without: "c \<notin> set s \<Longrightarrow> split s c = [s]"
  by (induction s) auto

lemma split_first:
  "c \<in> set s \<Longrightarrow>
   split s c = takeWhile (\<lambda>x. x \<noteq> c) s # split (drop 1 (dropWhile (\<lambda>x. x \<noteq> c) s)) c"
  by (induction s) auto

lemma split_last: "last (split s c) = rev (takeWhile (\<lambda>x. x \<noteq> c) (rev s))"
proof (induction s)
  case Nil
  show ?case by simp
next
  case (Cons x xs)
  show ?case
  proof (cases "c \<in> set xs")
    case True
    then have "count_list xs c \<noteq> 0"
      by (simp add: count_list_0_iff)
    then have "length (split xs c) \<ge> 2"
      by (simp add: split_length)
    then obtain p q ps where ps: "split xs c = p # q # ps"
      by (cases "split xs c"; cases "tl (split xs c)") auto
    from True have tw: "takeWhile (\<lambda>x. x \<noteq> c) (rev xs @ [x]) = takeWhile (\<lambda>x. x \<noteq> c) (rev xs)"
      by (simp add: takeWhile_append1[where x=c])
    show ?thesis using Cons ps tw by auto
  next
    case False
    then have tw: "takeWhile (\<lambda>x. x \<noteq> c) (rev xs @ [y]) = rev xs @ takeWhile (\<lambda>x. x \<noteq> c) [y]" for y
      by (intro takeWhile_append2) auto
    from False show ?thesis
      by (cases "x = c") (simp_all add: split_without tw)
  qed
qed

lemma startsWith_iff: "startsWith s p \<longleftrightarrow> (\<exists>v. s = p @ v)"
  by (induction s p rule: startsWith.induct) auto

lemma endsWith_iff: "endsWith s p \<longleftrightarrow> (\<exists>u. s = u @ p)"
proof
  assume "endsWith s p"
  then obtain v where "rev s = rev p @ v" by (auto simp: endsWith_def startsWith_iff)
  then have "s = rev v @ p" by (simp add: rev_eq_append_conv)
  then show "\<exists>u. s = u @ p" by blast
next
  assume "\<exists>u. s = u @ p"
  then obtain u where "s = u @ p" by blast
  then have "rev s = rev p @ rev u" by simp
  then show "endsWith s p" unfolding endsWith_def startsWith_iff by blast
qed

lemma str_includes_iff: "str_includes s p \<longleftrightarrow> (\<exists>u v. s = u @ p @ v)"
proof (induction s)
  case Nil
  show ?case by auto
next
  case (Cons c cs)
  show ?case
  proof
    assume "str_includes (c # cs) p"
    then consider "startsWith (c # cs) p" | "str_includes cs p" by auto
    then show "\<exists>u v. c # cs = u @ p @ v"
    proof cases
      case 1
      then obtain v where "c # cs = p @ v" by (auto simp: startsWith_iff)
      then have "c # cs = [] @ p @ v" by simp
      then show ?thesis by blast
    next
      case 2
      then obtain u v where "cs = u @ p @ v" using Cons by blast
      then have "c # cs = (c # u) @ p @ v" by simp
      then show ?thesis by blast
    qed
  next
    assume "\<exists>u v. c # cs = u @ p @ v"
    then obtain u v where uv: "c # cs = u @ p @ v" by blast
    show "str_includes (c # cs) p"
    proof (cases u)
      case Nil
      with uv have "startsWith (c # cs) p" by (auto simp: startsWith_iff)
      then show ?thesis by simp
    next
      case (Cons a u')
      with uv have "cs = u' @ p @ v" by simp
      then have "str_includes cs p" using Cons.IH by blast
      then show ?thesis by simp
    qed
  qed
qed

text \<open>With exactly one \<open>@\<close>, \<open>split\<close> gives the local part and the domain.\<close>

lemma split_at_one:
  assumes "count_list s CHR ''@'' = 1"
  shows "split s CHR ''@'' = [local_part s, domain_part s]"
proof -
  from assms have mem: "CHR ''@'' \<in> set s"
    by (metis count_list_0_iff zero_neq_one)
  have len: "length (split s CHR ''@'') = 2"
    using assms by (simp add: split_length)
  from split_first [OF mem]
  have eq: "split s CHR ''@'' = local_part s # split (domain_part s) CHR ''@''"
    by (simp add: local_part_def domain_part_def)
  with len have "length (split (domain_part s) CHR ''@'') = 1" by simp
  then have "CHR ''@'' \<notin> set (domain_part s)"
    by (simp add: split_length count_list_0_iff)
  then show ?thesis using eq by (simp add: split_without)
qed

subsection \<open>The matcher against the meaning of patterns\<close>

lemma conc_Nil: "[] \<in> conc A B \<longleftrightarrow> [] \<in> A \<and> [] \<in> B"
  by (auto simp: conc_def)

lemma conc_Cons:
  "c # w \<in> conc A B \<longleftrightarrow>
     (\<exists>u v. w = u @ v \<and> c # u \<in> A \<and> v \<in> B) \<or> ([] \<in> A \<and> c # w \<in> B)"
proof
  assume "c # w \<in> conc A B"
  then obtain x y where xy: "c # w = x @ y" "x \<in> A" "y \<in> B" by (auto simp: conc_def)
  show "(\<exists>u v. w = u @ v \<and> c # u \<in> A \<and> v \<in> B) \<or> ([] \<in> A \<and> c # w \<in> B)"
  proof (cases x)
    case Nil
    with xy show ?thesis by simp
  next
    case (Cons a x')
    with xy have "w = x' @ y" "c # x' \<in> A" by simp_all
    with xy(3) show ?thesis by blast
  qed
next
  assume "(\<exists>u v. w = u @ v \<and> c # u \<in> A \<and> v \<in> B) \<or> ([] \<in> A \<and> c # w \<in> B)"
  then show "c # w \<in> conc A B"
  proof
    assume "\<exists>u v. w = u @ v \<and> c # u \<in> A \<and> v \<in> B"
    then obtain u v where "w = u @ v" "c # u \<in> A" "v \<in> B" by blast
    then have "c # w = (c # u) @ v \<and> c # u \<in> A \<and> v \<in> B" by simp
    then show ?thesis unfolding conc_def by blast
  next
    assume "[] \<in> A \<and> c # w \<in> B"
    then have "c # w = [] @ (c # w) \<and> [] \<in> A \<and> c # w \<in> B" by simp
    then show ?thesis unfolding conc_def by blast
  qed
qed

lemma conc_mono: "B \<subseteq> C \<Longrightarrow> conc A B \<subseteq> conc A C"
  by (auto simp: conc_def)

lemma star_Cons:
  "c # w \<in> star A \<longleftrightarrow> (\<exists>u v. w = u @ v \<and> c # u \<in> A \<and> v \<in> star A)"
proof
  have "x \<in> star A \<Longrightarrow> x = c # w \<Longrightarrow> \<exists>u v. w = u @ v \<and> c # u \<in> A \<and> v \<in> star A" for x
  proof (induction arbitrary: w rule: star.induct)
    case star_empty
    then show ?case by simp
  next
    case (star_step u v)
    show ?case
    proof (cases u)
      case Nil
      with star_step show ?thesis by simp
    next
      case (Cons a u')
      with star_step.prems have "w = u' @ v" "a = c" by simp_all
      with star_step.hyps Cons show ?thesis by blast
    qed
  qed
  then show "c # w \<in> star A \<Longrightarrow> \<exists>u v. w = u @ v \<and> c # u \<in> A \<and> v \<in> star A" by blast
next
  assume "\<exists>u v. w = u @ v \<and> c # u \<in> A \<and> v \<in> star A"
  then obtain u v where "w = u @ v" "c # u \<in> A" "v \<in> star A" by blast
  then have "(c # u) @ v \<in> star A" "c # w = (c # u) @ v"
    using star_step [of "c # u" A v] by simp_all
  then show "c # w \<in> star A" by simp
qed

lemma at_most_Nil: "[] \<in> at_most n A"
  by (cases n) simp_all

lemma at_most_mono: "at_most n A \<subseteq> at_most (Suc n) A"
proof (induction n)
  case 0
  show ?case by simp
next
  case (Suc n)
  from conc_mono [OF Suc] show ?case by auto
qed

lemma at_most_Cons:
  "c # w \<in> at_most n A \<longleftrightarrow>
     n \<noteq> 0 \<and> (\<exists>u v. w = u @ v \<and> c # u \<in> A \<and> v \<in> at_most (n - 1) A)"
proof (induction n)
  case 0
  show ?case by simp
next
  case (Suc n)
  show ?case
  proof
    assume "c # w \<in> at_most (Suc n) A"
    then have "c # w \<in> conc A (at_most n A)" by simp
    then consider "\<exists>u v. w = u @ v \<and> c # u \<in> A \<and> v \<in> at_most n A"
      | "c # w \<in> at_most n A" by (auto simp: conc_Cons)
    then show "Suc n \<noteq> 0 \<and> (\<exists>u v. w = u @ v \<and> c # u \<in> A \<and> v \<in> at_most (Suc n - 1) A)"
    proof cases
      case 1
      then show ?thesis by simp
    next
      case 2
      with Suc obtain u v where uv: "n \<noteq> 0" "w = u @ v" "c # u \<in> A" "v \<in> at_most (n - 1) A"
        by blast
      from uv(1) obtain k where k: "n = Suc k" by (cases n) auto
      with uv(4) at_most_mono [of k A] have "v \<in> at_most n A" by auto
      with uv show ?thesis by auto
    qed
  next
    assume "Suc n \<noteq> 0 \<and> (\<exists>u v. w = u @ v \<and> c # u \<in> A \<and> v \<in> at_most (Suc n - 1) A)"
    then have "c # w \<in> conc A (at_most n A)" by (auto simp: conc_Cons)
    then show "c # w \<in> at_most (Suc n) A" by simp
  qed
qed

lemma conc_shift:
  assumes "\<And>u. u \<in> A' \<longleftrightarrow> c # u \<in> A"
  shows "w \<in> conc A' B \<longleftrightarrow> (\<exists>u v. w = u @ v \<and> c # u \<in> A \<and> v \<in> B)"
  using assms by (auto simp: conc_def)

lemma nullable_iff: "nullable r \<longleftrightarrow> [] \<in> lang r"
  by (induction r) (auto simp: conc_Nil at_most_Nil intro: star_empty)

lemma deriv_iff: "w \<in> lang (deriv c r) \<longleftrightarrow> c # w \<in> lang r"
proof (induction r arbitrary: w)
  case (Seq r s)
  from Seq.IH(1) have "v \<in> conc (lang (deriv c r)) (lang s) \<longleftrightarrow>
      (\<exists>u t. v = u @ t \<and> c # u \<in> lang r \<and> t \<in> lang s)" for v
    by (rule conc_shift)
  with Seq.IH(2) show ?case by (simp add: conc_Cons nullable_iff)
next
  case (Plus r)
  from Plus.IH have "v \<in> conc (lang (deriv c r)) (star (lang r)) \<longleftrightarrow>
      (\<exists>u t. v = u @ t \<and> c # u \<in> lang r \<and> t \<in> star (lang r))" for v
    by (rule conc_shift)
  then show ?case by (auto simp: conc_Cons star_Cons)
next
  case (Star r)
  from Star.IH have "v \<in> conc (lang (deriv c r)) (star (lang r)) \<longleftrightarrow>
      (\<exists>u t. v = u @ t \<and> c # u \<in> lang r \<and> t \<in> star (lang r))" for v
    by (rule conc_shift)
  then show ?case by (simp add: star_Cons)
next
  case (Upto n r)
  from Upto.IH have "v \<in> conc (lang (deriv c r)) (at_most (n - 1) (lang r)) \<longleftrightarrow>
      (\<exists>u t. v = u @ t \<and> c # u \<in> lang r \<and> t \<in> at_most (n - 1) (lang r))" for v
    by (rule conc_shift)
  then show ?case by (simp add: at_most_Cons)
qed auto

lemma regex_test_iff: "regex_test r s \<longleftrightarrow> s \<in> lang r"
  by (induction r s rule: regex_test.induct) (simp_all add: nullable_iff deriv_iff)

section \<open>The email check\<close>

text \<open>On a string, \<open>esEmailValido\<close> is the conjunction of its checks.\<close>

lemma esEmailValido_string:
  "esEmailValido E (JStr s) =
     Inr (s \<noteq> [] \<and> length s \<le> 254 \<and> regex_test email_regex s
          \<and> length (split s CHR ''@'') = 2
          \<and> length (split s CHR ''@'' ! 0) \<le> 64
          \<and> 2 \<le> length (split (split s CHR ''@'' ! 1) CHR ''.'')
          \<and> 2 \<le> length (last (split (split s CHR ''@'' ! 1) CHR ''.''))
          \<and> \<not> str_includes s ''..''
          \<and> \<not> startsWith (split s CHR ''@'' ! 0) ''.''
          \<and> \<not> endsWith (split s CHR ''@'' ! 0) ''.'')"
  by (auto simp: esEmailValido_def andThen_def js_gt_def Let_def last_conv_nth split_not_empty)

text \<open>The facts that evaluate \<open>esEmailValido\<close> on a given value.\<close>

lemmas email_eval = esEmailValido_def andThen_def js_gt_def Let_def email_regex_def label_def
  alnum_def local_chars_def in_class_def endsWith_def

lemma esEmailValido_examples:
  "esEmailValido E (JStr ''juan@example.com'') = Inr True"
  "esEmailValido E (JStr ''juan.perez@subdomain.example.com'') = Inr True"
  "esEmailValido E (JStr ''user+tag@example.co.uk'') = Inr True"
  "esEmailValido E (JStr ''invalido.com'') = Inr False"
  "esEmailValido E (JStr ''sin@dominio'') = Inr False"
  "esEmailValido E (JStr ''test@@example.com'') = Inr False"
  "esEmailValido E (JStr ''user@.com'') = Inr False"
  by (simp_all add: email_eval)

text \<open>
  Claim C3. For every string \<open>s\<close>, \<open>esEmailValido\<close> returns false whenever \<open>s\<close> is longer
  than 254 characters, or contains two consecutive dots, or does not contain exactly
  one \<open>@\<close>, or has a local part that is longer than 64 characters or starts or ends
  with a dot, or has a final domain label shorter than 2 characters.
\<close>

theorem esEmailValido_rejects:
  assumes "254 < length s
     \<or> (\<exists>u v. s = u @ ''..'' @ v)
     \<or> count_list s CHR ''@'' \<noteq> 1
     \<or> 64 < length (local_part s)
     \<or> (\<exists>v. local_part s = ''.'' @ v)
     \<or> (\<exists>u. local_part s = u @ ''.'')
     \<or> length (final_label (domain_part s)) < 2"
  shows "esEmailValido E (JStr s) = Inr False"
proof (cases "count_list s CHR ''@'' = 1")
  case False
  then have "length (split s CHR ''@'') \<noteq> 2" by (simp add: split_length)
  then show ?thesis by (simp add: esEmailValido_string)
next
  case True
  note parts = split_at_one [OF True]
  from assms True consider
      "254 < length s" | "str_includes s ''..''" | "64 < length (local_part s)"
    | "startsWith (local_part s) ''.''" | "endsWith (local_part s) ''.''"
    | "length (final_label (domain_part s)) < 2"
    unfolding str_includes_iff endsWith_iff startsWith_iff by blast
  then show ?thesis
    by cases (auto simp: esEmailValido_string parts split_last final_label_def)
qed

theorem esEmailValido_rejects_witness:
  "254 < length (replicate 250 CHR ''a'' @ ''@b.co'')
   \<and> esEmailValido decimal_engine (JStr (replicate 250 CHR ''a'' @ ''@b.co'')) = Inr False
   \<and> ''user..name@example.com'' = ''user'' @ ''..'' @ ''name@example.com''
   \<and> esEmailValido decimal_engine (JStr ''user..name@example.com'') = Inr False
   \<and> count_list ''test@@example.com'' CHR ''@'' \<noteq> 1
   \<and> esEmailValido decimal_engine (JStr ''test@@example.com'') = Inr False
   \<and> 64 < length (local_part (replicate 65 CHR ''a'' @ ''@b.co''))
   \<and> esEmailValido decimal_engine (JStr (replicate 65 CHR ''a'' @ ''@b.co'')) = Inr False
   \<and> local_part ''.a@b.co'' = ''.'' @ ''a''
   \<and> esEmailValido decimal_engine (JStr ''.a@b.co'') = Inr False
   \<and> local_part ''a.@b.co'' = ''a'' @ ''.''
   \<and> esEmailValido decimal_engine (JStr ''a.@b.co'') = Inr False
   \<and> length (final_label (domain_part ''user@domain.c'')) < 2
   \<and> esEmailValido decimal_engine (JStr ''user@domain.c'') = Inr False"
proof -
  have h1: "254 < length (replicate 250 CHR ''a'' @ ''@b.co'')" by simp
  have h2: "''user..name@example.com'' = ''user'' @ ''..'' @ ''name@example.com''" by simp
  have h3: "count_list ''test@@example.com'' CHR ''@'' \<noteq> 1" by simp
  have "takeWhile (\<lambda>c. c \<noteq> CHR ''@'') (replicate 65 CHR ''a'' @ ''@b.co'')
          = replicate 65 CHR ''a'' @ takeWhile (\<lambda>c. c \<noteq> CHR ''@'') ''@b.co''"
    by (rule takeWhile_append2) auto
  then have h4: "64 < length (local_part (replicate 65 CHR ''a'' @ ''@b.co''))"
    by (simp add: local_part_def)
  have h5: "local_part ''.a@b.co'' = ''.'' @ ''a''" by (simp add: local_part_def)
  have h6: "local_part ''a.@b.co'' = ''a'' @ ''.''" by (simp add: local_part_def)
  have h7: "length (final_label (domain_part ''user@domain.c'')) < 2"
    by (simp add: final_label_def domain_part_def)
  from h2 have h2': "\<exists>u v. ''user..name@example.com'' = u @ ''..'' @ v" by blast
  from h5 have h5': "\<exists>v. local_part ''.a@b.co'' = ''.'' @ v" by blast
  from h6 have h6': "\<exists>u. local_part ''a.@b.co'' = u @ ''.''" by blast
  note r = esEmailValido_rejects [where E = decimal_engine]
  show ?thesis
    using h1 h2 h3 h4 h5 h6 h7
      r [of "replicate 250 CHR ''a'' @ ''@b.co''", OF disjI1, OF h1]
      r [of "''user..name@example.com''", OF disjI2, OF disjI1, OF h2']
      r [of "''test@@example.com''", OF disjI2, OF disjI2, OF disjI1, OF h3]
      r [of "replicate 65 CHR ''a'' @ ''@b.co''", OF disjI2, OF disjI2, OF disjI2, OF disjI1, OF h4]
      r [of "''.a@b.co''", OF disjI2, OF disjI2, OF disjI2, OF disjI2, OF disjI1, OF h5']
      r [of "''a.@b.co''", OF disjI2, OF disjI2, OF disjI2, OF disjI2, OF disjI2, OF disjI1, OF h6']
      r [of "''user@domain.c''", OF disjI2, OF disjI2, OF disjI2, OF disjI2, OF disjI2, OF disjI2, OF h7]
    by blast
qed

text \<open>
  Claim C10, as amended. On every string, and on \<open>null\<close> and \<open>undefined\<close>,
  \<open>esEmailValido\<close> returns a boolean and does not throw; on \<open>null\<close>, \<open>undefined\<close> and
  the empty string the result is false.
\<close>

theorem esEmailValido_total:
  "(\<exists>b. esEmailValido E (JStr s) = Inr b)
   \<and> esEmailValido E JNull = Inr False
   \<and> esEmailValido E JUndefined = Inr False
   \<and> esEmailValido E (JStr []) = Inr False"
  by (simp add: esEmailValido_string) (simp add: esEmailValido_def)

theorem esEmailValido_total_witness:
  "esEmailValido decimal_engine (JStr ''juan@example.com'') = Inr True
   \<and> esEmailValido decimal_engine (JStr ''invalido.com'') = Inr False
   \<and> esEmailValido decimal_engine JNull = Inr False
   \<and> esEmailValido decimal_engine JUndefined = Inr False
   \<and> esEmailValido decimal_engine (JStr []) = Inr False"
  using esEmailValido_total [of decimal_engine "''juan@example.com''"]
    esEmailValido_total [of decimal_engine "''invalido.com''"]
  by (simp add: esEmailValido_examples)

text \<open>
  The claim as stated (no input makes \<open>esEmailValido\<close> throw) fails on an array that
  holds one address: the pattern is tested on the array's string form and passes, and
  \<open>split\<close> is then called on the array.
\<close>

theorem esEmailValido_array_counterexample:
  "esEmailValido decimal_engine (JArr [JStr ''a@b.co''])
     = Inl (JsError ''TypeError'' ''email.split is not a function'')"
  by (simp add: email_eval not_a_function_def decimal_engine_def)

section \<open>The record check\<close>

text \<open>A record whose name and email pass and whose password is \<open>null\<close> is accepted in edit mode.\<close>

lemma validarDatosUsuario_edit_null:
  assumes "get_prop usuario ''nombre'' = Inr (JStr n)" and "2 \<le> length (trim n)"
    and "get_prop usuario ''email'' = Inr email" and "esEmailValido E email = Inr True"
    and "get_prop usuario ''password'' = Inr JNull"
  shows "validarDatosUsuario E usuario True = Inr ()"
proof -
  from assms(2) have n: "n \<noteq> []" "\<not> length (trim n) < 2" by (auto simp: trim_def)
  from assms(4) have e: "truthy email" by (auto simp: esEmailValido_def split: if_splits)
  show ?thesis
    using assms(1,3,4,5) n e
    by (simp add: validarDatosUsuario_def andThen_def)
qed

text \<open>
  Claim C1, as amended. For every record whose name and email checks pass: in edit
  mode a \<open>null\<close> password is accepted and a string password shorter than 6 characters
  makes \<open>validarDatosUsuario\<close> throw; in create mode a \<open>null\<close> or absent password, or a
  string password shorter than 6 characters, makes it throw.
\<close>

theorem validarDatosUsuario_password:
  assumes "get_prop usuario ''nombre'' = Inr (JStr n)" and "2 \<le> length (trim n)"
    and "get_prop usuario ''email'' = Inr email" and "esEmailValido E email = Inr True"
  shows "(get_prop usuario ''password'' = Inr JNull \<longrightarrow>
            validarDatosUsuario E usuario True = Inr ())
     \<and> (get_prop usuario ''password'' = Inr (JStr p) \<and> length p < 6 \<longrightarrow>
            validarDatosUsuario E usuario True = Inl (JsError ''Error'' msg_password_edicion))
     \<and> (get_prop usuario ''password'' = Inr JNull \<or> get_prop usuario ''password'' = Inr JUndefined
          \<or> (get_prop usuario ''password'' = Inr (JStr p) \<and> length p < 6) \<longrightarrow>
            validarDatosUsuario E usuario False = Inl (JsError ''Error'' msg_password_creacion))"
proof -
  from assms(2) have n: "n \<noteq> []" "\<not> length (trim n) < 2" by (auto simp: trim_def)
  from assms(4) have e: "truthy email" by (auto simp: esEmailValido_def split: if_splits)
  show ?thesis
    using assms(1,3,4) n e
    by (auto simp: validarDatosUsuario_def andThen_def js_lt_def)
qed

theorem validarDatosUsuario_password_witness:
  "get_prop (JObj [(''nombre'', JStr ''Juan''), (''email'', JStr ''juan@example.com''),
                   (''password'', JNull)]) ''nombre'' = Inr (JStr ''Juan'')
   \<and> 2 \<le> length (trim ''Juan'')
   \<and> get_prop (JObj [(''nombre'', JStr ''Juan''), (''email'', JStr ''juan@example.com''),
                     (''password'', JNull)]) ''email'' = Inr (JStr ''juan@example.com'')
   \<and> esEmailValido decimal_engine (JStr ''juan@example.com'') = Inr True
   \<and> get_prop (JObj [(''nombre'', JStr ''Juan''), (''email'', JStr ''juan@example.com''),
                     (''password'', JNull)]) ''password'' = Inr JNull
   \<and> validarDatosUsuario decimal_engine
        (JObj [(''nombre'', JStr ''Juan''), (''email'', JStr ''juan@example.com''),
               (''password'', JNull)]) True = Inr ()
   \<and> validarDatosUsuario decimal_engine
        (JObj [(''nombre'', JStr ''Juan''), (''email'', JStr ''juan@example.com''),
               (''password'', JNull)]) False = Inl (JsError ''Error'' msg_password_creacion)
   \<and> get_prop (JObj [(''nombre'', JStr ''Juan''), (''email'', JStr ''juan@example.com''),
                     (''password'', JStr ''abc'')]) ''password'' = Inr (JStr ''abc'')
   \<and> length ''abc'' < 6
   \<and> validarDatosUsuario decimal_engine
        (JObj [(''nombre'', JStr ''Juan''), (''email'', JStr ''juan@example.com''),
               (''password'', JStr ''abc'')]) True = Inl (JsError ''Error'' msg_password_edicion)"
proof -
  have n: "2 \<le> length (trim ''Juan'')"
    by (simp add: trim_def is_space_def)
  have e: "esEmailValido decimal_engine (JStr ''juan@example.com'') = Inr True"
    by (simp add: email_eval)
  show ?thesis
    using n e
      validarDatosUsuario_password [of "JObj [(''nombre'', JStr ''Juan''),
          (''email'', JStr ''juan@example.com''), (''password'', JNull)]" "''Juan''"
          "JStr ''juan@example.com''" decimal_engine "''abc''"]
      validarDatosUsuario_password [of "JObj [(''nombre'', JStr ''Juan''),
          (''email'', JStr ''juan@example.com''), (''password'', JStr ''abc'')]" "''Juan''"
          "JStr ''juan@example.com''" decimal_engine "''abc''"]
    by simp
qed

text \<open>
  The claim as stated also accepts an absent password in edit mode. There the
  comparison \<open>usuario.password !== null\<close> holds and reading \<open>length\<close> of \<open>undefined\<close>
  throws.
\<close>

theorem validarDatosUsuario_absent_counterexample:
  "validarDatosUsuario decimal_engine
     (JObj [(''nombre'', JStr ''Juan''), (''email'', JStr ''juan@example.com'')]) True
   = Inl (JsError ''TypeError''
       (''Cannot read properties of undefined (reading '' @ [CHR 0x27] @ ''length'' @ [CHR 0x27] @ '')''))"
  by (simp add: validarDatosUsuario_def trim_def is_space_def cannot_read_def email_eval)

section \<open>Responses\<close>

text \<open>
  Claim C8. \<open>handleResponse\<close> applied to a response with status 204 returns
  \<open>{success: true}\<close> whatever the body is: the result does not depend on what \<open>json()\<close>
  or \<open>text()\<close> would give.
\<close>

theorem handleResponse_204:
  "status r = 204 \<Longrightarrow> handleResponse E r = Inr (JObj [(''success'', JBool True)])"
  by (simp add: handleResponse_def)

theorem handleResponse_204_witness:
  "status \<lparr>status = 204, content_type = Some ''application/json'',
            json_result = Inl (JsError ''SyntaxError'' ''Unexpected end of JSON input''),
            text_result = Inr []\<rparr> = 204
   \<and> handleResponse decimal_engine
        \<lparr>status = 204, content_type = Some ''application/json'',
         json_result = Inl (JsError ''SyntaxError'' ''Unexpected end of JSON input''),
         text_result = Inr []\<rparr>
      = Inr (JObj [(''success'', JBool True)])"
  using handleResponse_204 [of "\<lparr>status = 204, content_type = Some ''application/json'',
            json_result = Inl (JsError ''SyntaxError'' ''Unexpected end of JSON input''),
            text_result = Inr []\<rparr>" decimal_engine]
  by simp

section \<open>The timeout\<close>

text \<open>
  Claim C6. When the time bound of \<open>fetchWithTimeout\<close> is exceeded (the request is
  never settled, or would settle after more than \<open>TIMEOUT\<close> milliseconds), the request
  is aborted and an \<open>ApiError\<close> with status 408 is thrown; an error of the underlying
  fetch that is not an abort is thrown again as it is.
\<close>

theorem fetchWithTimeout_errors:
  "(net req = Hangs \<or> (\<exists>t r. net req = Responds t r \<and> TIMEOUT < t)
      \<or> (\<exists>t e. net req = Fails t e \<and> TIMEOUT < t)
    \<longrightarrow> fetchWithTimeout net req = Inl (ApiError msg_timeout 408 JNull))
   \<and> (\<forall>t e. net req = Fails t e \<and> t < TIMEOUT \<and> error_name e \<noteq> ''AbortError''
    \<longrightarrow> fetchWithTimeout net req = Inl e)"
  by (auto simp: fetchWithTimeout_def fetch_def abort_error_def)

theorem fetchWithTimeout_errors_witness:
  "(\<lambda>q. Hangs) \<lparr>req_method = ''GET'', req_url = BASE_URL, req_headers = HEADERS, req_body = None\<rparr> = Hangs
   \<and> fetchWithTimeout (\<lambda>q. Hangs)
        \<lparr>req_method = ''GET'', req_url = BASE_URL, req_headers = HEADERS, req_body = None\<rparr>
      = Inl (ApiError msg_timeout 408 JNull)
   \<and> (\<lambda>q. Fails 12 (JsError ''TypeError'' ''Failed to fetch''))
        \<lparr>req_method = ''GET'', req_url = BASE_URL, req_headers = HEADERS, req_body = None\<rparr>
      = Fails 12 (JsError ''TypeError'' ''Failed to fetch'')
   \<and> (12::nat) < TIMEOUT
   \<and> error_name (JsError ''TypeError'' ''Failed to fetch'') \<noteq> ''AbortError''
   \<and> fetchWithTimeout (\<lambda>q. Fails 12 (JsError ''TypeError'' ''Failed to fetch''))
        \<lparr>req_method = ''GET'', req_url = BASE_URL, req_headers = HEADERS, req_body = None\<rparr>
      = Inl (JsError ''TypeError'' ''Failed to fetch'')"
  using fetchWithTimeout_errors [of "\<lambda>q. Hangs"
          "\<lparr>req_method = ''GET'', req_url = BASE_URL, req_headers = HEADERS, req_body = None\<rparr>"]
        fetchWithTimeout_errors [of "\<lambda>q. Fails 12 (JsError ''TypeError'' ''Failed to fetch'')"
          "\<lparr>req_method = ''GET'', req_url = BASE_URL, req_headers = HEADERS, req_body = None\<rparr>"]
  by (simp add: TIMEOUT_def)

section \<open>Responses outside the success range\<close>

lemma parsed_body_data:
  assumes "parsed_body r data"
  shows "(if (case content_type r of None \<Rightarrow> False
              | Some ct \<Rightarrow> ct \<noteq> [] \<and> str_includes ct ''application/json'')
          then json_result r
          else andThen (text_result r) (\<lambda>t. Inr (JStr t))) = Inr data"
proof -
  have "str_includes ct ''application/json'' \<Longrightarrow> ct \<noteq> []" for ct
    by (cases ct) auto
  then have "(case content_type r of None \<Rightarrow> False
              | Some ct \<Rightarrow> ct \<noteq> [] \<and> str_includes ct ''application/json'')
        = (case content_type r of None \<Rightarrow> False | Some ct \<Rightarrow> str_includes ct ''application/json'')"
    by (auto split: option.splits)
  with assms show ?thesis
    by (auto simp: parsed_body_def andThen_def split: sum.splits if_splits)
qed

text \<open>
  Where the body of a response outside the success range is read without error and is
  of the shape the backend documents, the \<open>ApiError\<close> carries the status and the body,
  and its message is: the \<open>detalles\<close> array of strings joined with a comma and a space;
  else, \<open>detalles\<close> being absent or falsy, the non-empty \<open>error\<close> string; else, both
  being absent or falsy, \<open>Error desconocido\<close>.
\<close>

lemma handleResponse_error:
  assumes "\<not> ok r" and "parsed_body r data"
  shows "(get_prop data ''detalles'' = Inr (JArr (map JStr ds)) \<longrightarrow>
            handleResponse E r = Inl (ApiError (join_strings '', '' ds) (status r) data))
     \<and> (get_prop data ''detalles'' = Inr d \<and> \<not> truthy d
          \<and> get_prop data ''error'' = Inr (JStr m) \<and> m \<noteq> [] \<longrightarrow>
            handleResponse E r = Inl (ApiError m (status r) data))
     \<and> (get_prop data ''detalles'' = Inr d \<and> \<not> truthy d
          \<and> get_prop data ''error'' = Inr x \<and> \<not> truthy x \<longrightarrow>
            handleResponse E r = Inl (ApiError ''Error desconocido'' (status r) data))"
proof -
  from assms(1) have s: "status r \<noteq> 204" by (auto simp: ok_def)
  note b = parsed_body_data [OF assms(2)]
  show ?thesis
    using s assms(1)
    by (auto simp: handleResponse_def b andThen_Inr andThen_Inl array_join_def
          element_strings_of_strings)
qed

text \<open>
  Examples: a 404 response with the JSON body \<open>{"error": "not found"}\<close>, a 409 response
  with a \<open>detalles\<close> array, a 502 response with a text body.
\<close>

lemma handleResponse_error_examples:
  "\<not> ok \<lparr>status = 404, content_type = Some ''application/json; charset=utf-8'',
           json_result = Inr (JObj [(''error'', JStr ''not found'')]),
           text_result = Inr ''{}''\<rparr>
   \<and> parsed_body \<lparr>status = 404, content_type = Some ''application/json; charset=utf-8'',
           json_result = Inr (JObj [(''error'', JStr ''not found'')]),
           text_result = Inr ''{}''\<rparr> (JObj [(''error'', JStr ''not found'')])
   \<and> get_prop (JObj [(''error'', JStr ''not found'')]) ''detalles'' = Inr JUndefined
   \<and> \<not> truthy JUndefined
   \<and> get_prop (JObj [(''error'', JStr ''not found'')]) ''error'' = Inr (JStr ''not found'')
   \<and> ''not found'' \<noteq> []
   \<and> handleResponse decimal_engine
        \<lparr>status = 404, content_type = Some ''application/json; charset=utf-8'',
         json_result = Inr (JObj [(''error'', JStr ''not found'')]),
         text_result = Inr ''{}''\<rparr>
      = Inl (ApiError ''not found'' 404 (JObj [(''error'', JStr ''not found'')]))
   \<and> \<not> ok \<lparr>status = 409, content_type = Some ''application/json'',
           json_result = Inr (JObj [(''detalles'', JArr (map JStr [''a'', ''b'']))]),
           text_result = Inr ''{}''\<rparr>
   \<and> handleResponse decimal_engine
        \<lparr>status = 409, content_type = Some ''application/json'',
         json_result = Inr (JObj [(''detalles'', JArr (map JStr [''a'', ''b'']))]),
         text_result = Inr ''{}''\<rparr>
      = Inl (ApiError ''a, b'' 409 (JObj [(''detalles'', JArr (map JStr [''a'', ''b'']))]))
   \<and> \<not> ok \<lparr>status = 502, content_type = Some ''text/html'',
           json_result = Inl (JsError ''SyntaxError'' ''Unexpected token''),
           text_result = Inr ''Bad Gateway''\<rparr>
   \<and> handleResponse decimal_engine
        \<lparr>status = 502, content_type = Some ''text/html'',
         json_result = Inl (JsError ''SyntaxError'' ''Unexpected token''),
         text_result = Inr ''Bad Gateway''\<rparr>
      = Inl (ApiError ''Error desconocido'' 502 (JStr ''Bad Gateway''))"
proof -
  have p1: "parsed_body \<lparr>status = 404, content_type = Some ''application/json; charset=utf-8'',
           json_result = Inr (JObj [(''error'', JStr ''not found'')]),
           text_result = Inr ''{}''\<rparr> (JObj [(''error'', JStr ''not found'')])"
    by (simp add: parsed_body_def)
  have p2: "parsed_body \<lparr>status = 409, content_type = Some ''application/json'',
           json_result = Inr (JObj [(''detalles'', JArr (map JStr [''a'', ''b'']))]),
           text_result = Inr ''{}''\<rparr> (JObj [(''detalles'', JArr (map JStr [''a'', ''b'']))])"
    by (simp add: parsed_body_def)
  have p3: "parsed_body \<lparr>status = 502, content_type = Some ''text/html'',
           json_result = Inl (JsError ''SyntaxError'' ''Unexpected token''),
           text_result = Inr ''Bad Gateway''\<rparr> (JStr ''Bad Gateway'')"
    by (simp add: parsed_body_def)
  show ?thesis
    using p1
      handleResponse_error [OF _ p1, of "[]" decimal_engine JUndefined "''not found''" JUndefined]
      handleResponse_error [OF _ p2, of "[''a'', ''b'']" decimal_engine JUndefined "''x''" JUndefined]
      handleResponse_error [OF _ p3, of "[]" decimal_engine JUndefined "''x''" JUndefined]
    by (simp add: ok_def)
qed

text \<open>
  Claim C4. The claim asks that for every response whose status is outside the success
  range \<open>handleResponse\<close> throw an \<open>ApiError\<close> that carries the status and the parsed
  body, with the generic message when the body has neither \<open>detalles\<close> nor \<open>error\<close>. On
  a response with status 500 whose JSON body is \<open>null\<close>, the body is parsed, the read
  of \<open>data.detalles\<close> throws, and the \<open>TypeError\<close> of that read is what \<open>handleResponse\<close>
  raises: no \<open>ApiError\<close>, no status.
\<close>

theorem handleResponse_null_body:
  "handleResponse E
     \<lparr>status = 500, content_type = Some ''application/json'',
      json_result = Inr JNull, text_result = Inr ''null''\<rparr>
   = Inl (JsError ''TypeError''
       (''Cannot read properties of null (reading '' @ [CHR 0x27] @ ''detalles'' @ [CHR 0x27] @ '')''))"
  by (simp add: handleResponse_def ok_def andThen_def cannot_read_def)

text \<open>
  The same happens when \<open>detalles\<close> is present but is not an array: \<open>join\<close> is not a
  function of a string.
\<close>

lemma handleResponse_detalles_string:
  "handleResponse E
     \<lparr>status = 400, content_type = Some ''application/json'',
      json_result = Inr (JObj [(''detalles'', JStr ''email duplicado'')]),
      text_result = Inr []\<rparr>
   = Inl (JsError ''TypeError'' ''data.detalles.join is not a function'')"
  by (simp add: handleResponse_def ok_def andThen_def not_a_function_def)

section \<open>The guard on the id\<close>

lemma id_invalido_iff: "id_invalido E v = Inr (\<not> positive_integer v)"
  by (cases v) (auto simp: id_invalido_def positive_integer_def js_le_def num_le_def split: jsnum.splits)

lemma id_type_error_name: "error_name (id_type_error E v) = ''TypeError''"
proof (cases "ToString E v")
  case (Inl e)
  then have "e = cannot_convert" by (rule ToString_throws)
  with Inl show ?thesis by (simp add: id_type_error_def cannot_convert_def)
next
  case (Inr s)
  then show ?thesis by (simp add: id_type_error_def)
qed

lemma positive_integer_ToString:
  "positive_integer v \<Longrightarrow> \<exists>s. ToString E v = Inr s"
  by (cases v) (auto simp: positive_integer_def)

text \<open>
  Claim C5. For every value that is not an integer strictly greater than zero,
  \<open>obtenerUsuarioPorId\<close>, \<open>actualizarUsuario\<close> and \<open>eliminarUsuario\<close> throw a \<open>TypeError\<close>
  and have passed no request to \<open>fetch\<close>. For every positive integer none of them throws
  the guard's \<open>TypeError\<close>: \<open>obtenerUsuarioPorId\<close> and \<open>eliminarUsuario\<close> issue their one
  request and their outcome is that of the request and of \<open>handleResponse\<close>;
  \<open>actualizarUsuario\<close> throws what the check of the record throws, without a request,
  or else issues its request and has the outcome of the request and of
  \<open>handleResponse\<close>.
\<close>

theorem id_guard:
  "(\<not> positive_integer ident \<longrightarrow>
      fst (obtenerUsuarioPorId E net ident) = []
      \<and> throws_TypeError (snd (obtenerUsuarioPorId E net ident))
      \<and> fst (actualizarUsuario E net ident usuario) = []
      \<and> throws_TypeError (snd (actualizarUsuario E net ident usuario))
      \<and> fst (eliminarUsuario E net ident) = []
      \<and> throws_TypeError (snd (eliminarUsuario E net ident)))
   \<and> (positive_integer ident \<longrightarrow>
      (\<exists>shown. ToString E ident = Inr shown
        \<and> obtenerUsuarioPorId E net ident =
            ([\<lparr>req_method = ''GET'', req_url = BASE_URL @ ''/'' @ shown,
               req_headers = HEADERS, req_body = None\<rparr>],
             andThen (fetchWithTimeout net
                 \<lparr>req_method = ''GET'', req_url = BASE_URL @ ''/'' @ shown,
                  req_headers = HEADERS, req_body = None\<rparr>) (handleResponse E))
        \<and> eliminarUsuario E net ident =
            ([\<lparr>req_method = ''DELETE'', req_url = BASE_URL @ ''/'' @ shown,
               req_headers = HEADERS, req_body = None\<rparr>],
             andThen (fetchWithTimeout net
                 \<lparr>req_method = ''DELETE'', req_url = BASE_URL @ ''/'' @ shown,
                  req_headers = HEADERS, req_body = None\<rparr>) (handleResponse E))
        \<and> actualizarUsuario E net ident usuario =
            (case validarDatosUsuario E usuario True of
               Inl e \<Rightarrow> ([], Inl e)
             | Inr u \<Rightarrow>
                 ([\<lparr>req_method = ''PUT'', req_url = BASE_URL @ ''/'' @ shown,
                    req_headers = HEADERS, req_body = Some usuario\<rparr>],
                  andThen (fetchWithTimeout net
                      \<lparr>req_method = ''PUT'', req_url = BASE_URL @ ''/'' @ shown,
                       req_headers = HEADERS, req_body = Some usuario\<rparr>) (handleResponse E)))))"
proof (cases "positive_integer ident")
  case False
  then show ?thesis
    by (simp add: obtenerUsuarioPorId_def actualizarUsuario_def eliminarUsuario_def
          id_invalido_iff throws_TypeError_def id_type_error_name)
next
  case True
  then obtain s where "ToString E ident = Inr s"
    using positive_integer_ToString by blast
  with True show ?thesis
    by (simp add: obtenerUsuarioPorId_def actualizarUsuario_def eliminarUsuario_def
          id_invalido_iff Let_def split: sum.splits)
qed

theorem id_guard_witness:
  "\<not> positive_integer (JStr ''abc'')
   \<and> fst (obtenerUsuarioPorId decimal_engine (\<lambda>q. Hangs) (JStr ''abc'')) = []
   \<and> throws_TypeError (snd (obtenerUsuarioPorId decimal_engine (\<lambda>q. Hangs) (JStr ''abc'')))
   \<and> fst (actualizarUsuario decimal_engine (\<lambda>q. Hangs) (JStr ''abc'') JNull) = []
   \<and> throws_TypeError (snd (actualizarUsuario decimal_engine (\<lambda>q. Hangs) (JStr ''abc'') JNull))
   \<and> fst (eliminarUsuario decimal_engine (\<lambda>q. Hangs) (JStr ''abc'')) = []
   \<and> throws_TypeError (snd (eliminarUsuario decimal_engine (\<lambda>q. Hangs) (JStr ''abc'')))
   \<and> \<not> positive_integer (JNum (Fin 0))
   \<and> throws_TypeError (snd (eliminarUsuario decimal_engine (\<lambda>q. Hangs) (JNum (Fin 0))))
   \<and> \<not> positive_integer (JNum (Fin (-5)))
   \<and> throws_TypeError (snd (eliminarUsuario decimal_engine (\<lambda>q. Hangs) (JNum (Fin (-5)))))
   \<and> \<not> positive_integer (JNum (Fin (3 / 2)))
   \<and> throws_TypeError (snd (eliminarUsuario decimal_engine (\<lambda>q. Hangs) (JNum (Fin (3 / 2)))))
   \<and> positive_integer (JNum (Fin 7))
   \<and> obtenerUsuarioPorId decimal_engine (\<lambda>q. Hangs) (JNum (Fin 7))
        = ([\<lparr>req_method = ''GET'', req_url = BASE_URL @ ''/7'', req_headers = HEADERS,
              req_body = None\<rparr>],
           Inl (ApiError msg_timeout 408 JNull))
   \<and> eliminarUsuario decimal_engine
        (\<lambda>q. Responds 120 \<lparr>status = 204, content_type = None,
                json_result = Inl (JsError ''SyntaxError'' ''Unexpected end of JSON input''),
                text_result = Inr []\<rparr>) (JNum (Fin 7))
        = ([\<lparr>req_method = ''DELETE'', req_url = BASE_URL @ ''/7'', req_headers = HEADERS,
              req_body = None\<rparr>],
           Inr (JObj [(''success'', JBool True)]))
   \<and> actualizarUsuario decimal_engine (\<lambda>q. Hangs) (JNum (Fin 7)) JNull
        = ([], Inl (JsError ''TypeError''
            (''Cannot read properties of null (reading '' @ [CHR 0x27] @ ''nombre'' @ [CHR 0x27] @ '')'')))"
proof -
  have v: "validarDatosUsuario decimal_engine JNull True = Inl (JsError ''TypeError''
            (''Cannot read properties of null (reading '' @ [CHR 0x27] @ ''nombre'' @ [CHR 0x27] @ '')''))"
    by (simp add: validarDatosUsuario_def andThen_def cannot_read_def)
  have f: "\<lfloor>3 / 2 :: rat\<rfloor> = 1" by (simp add: floor_eq_iff)
  have s: "NumberToString decimal_engine (Fin 7) = ''7''"
    by (simp add: decimal_engine_def)
  have p: "positive_integer (JNum (Fin 7))"
    by (simp add: positive_integer_def)
  have t1: "fetchWithTimeout (\<lambda>q. Hangs) r = Inl (ApiError msg_timeout 408 JNull)" for r
    by (simp add: fetchWithTimeout_def fetch_def abort_error_def)
  have t2: "andThen (fetchWithTimeout
        (\<lambda>q. Responds 120 \<lparr>status = 204, content_type = None,
                json_result = Inl (JsError ''SyntaxError'' ''Unexpected end of JSON input''),
                text_result = Inr []\<rparr>) r) (handleResponse decimal_engine)
      = Inr (JObj [(''success'', JBool True)])" for r
    by (simp add: fetchWithTimeout_def fetch_def TIMEOUT_def andThen_def handleResponse_def)
  show ?thesis
    using id_guard [of "JStr ''abc''" decimal_engine "\<lambda>q. Hangs" JNull]
      id_guard [of "JNum (Fin 0)" decimal_engine "\<lambda>q. Hangs" JNull]
      id_guard [of "JNum (Fin (-5))" decimal_engine "\<lambda>q. Hangs" JNull]
      id_guard [of "JNum (Fin (3 / 2))" decimal_engine "\<lambda>q. Hangs" JNull]
      id_guard [of "JNum (Fin 7)" decimal_engine "\<lambda>q. Hangs" JNull]
      id_guard [of "JNum (Fin 7)" decimal_engine
        "\<lambda>q. Responds 120 \<lparr>status = 204, content_type = None,
                json_result = Inl (JsError ''SyntaxError'' ''Unexpected end of JSON input''),
                text_result = Inr []\<rparr>" JNull]
    by (simp add: positive_integer_def v f s t1 t2 andThen_Inl)
qed

section \<open>Editing with an empty password\<close>

lemma dropWhile_fixed: "xs = [] \<or> \<not> P (hd xs) \<Longrightarrow> dropWhile P xs = xs"
  by (cases xs) auto

lemma trim_idem: "trim (trim s) = trim s"
proof -
  define a where "a = dropWhile is_space s"
  define b where "b = dropWhile is_space (rev a)"
  have t: "trim s = rev b" by (simp add: trim_def a_def b_def)
  have "rev b = [] \<or> \<not> is_space (hd (rev b))"
  proof (cases "b = []")
    case True
    then show ?thesis by simp
  next
    case False
    have "takeWhile is_space (rev a) @ b = rev a" by (simp add: b_def)
    with False have "last b = last (rev a)" by (metis last_appendR)
    moreover from False have "a \<noteq> []" by (auto simp: b_def)
    ultimately have "hd (rev b) = hd a" using False by (simp add: hd_rev last_rev)
    moreover have "\<not> is_space (hd a)"
      using \<open>a \<noteq> []\<close> unfolding a_def by (rule hd_dropWhile)
    ultimately show ?thesis by simp
  qed
  then have "dropWhile is_space (rev b) = rev b" by (rule dropWhile_fixed)
  moreover have "dropWhile is_space b = b" by (simp add: b_def)
  ultimately show ?thesis by (simp add: t) (simp add: trim_def)
qed

text \<open>
  Claim C9. When the password field of the form is empty after trimming,
  \<open>obtenerDatosFormulario\<close> gives \<open>null\<close> for the password; with a name and an email
  that pass their checks, \<open>validarDatosUsuario\<close> in edit mode accepts the record, and
  for a positive integer id the request issued by \<open>actualizarUsuario\<close> is a PUT whose
  body is that record, with \<open>password: null\<close>.
\<close>

theorem edit_with_empty_password:
  assumes "trim (password_value f) = []"
  shows "get_prop (obtenerDatosFormulario f) ''password'' = Inr JNull
     \<and> (2 \<le> length (trim (nombre_value f))
          \<and> esEmailValido E (JStr (trim (email_value f))) = Inr True \<longrightarrow>
        validarDatosUsuario E (obtenerDatosFormulario f) True = Inr ()
        \<and> (positive_integer ident \<longrightarrow>
             (\<exists>shown. ToString E ident = Inr shown
                \<and> fst (actualizarUsuario E net ident (obtenerDatosFormulario f))
                    = [\<lparr>req_method = ''PUT'', req_url = BASE_URL @ ''/'' @ shown,
                        req_headers = HEADERS,
                        req_body = Some (JObj [(''nombre'', JStr (trim (nombre_value f))),
                                               (''email'', JStr (trim (email_value f))),
                                               (''password'', JNull)])\<rparr>])))"
proof -
  have datos: "obtenerDatosFormulario f
      = JObj [(''nombre'', JStr (trim (nombre_value f))),
              (''email'', JStr (trim (email_value f))), (''password'', JNull)]"
    using assms by (simp add: obtenerDatosFormulario_def)
  have pw: "get_prop (obtenerDatosFormulario f) ''password'' = Inr JNull"
    by (simp add: datos)
  {
    assume ok: "2 \<le> length (trim (nombre_value f))"
       "esEmailValido E (JStr (trim (email_value f))) = Inr True"
    have "get_prop (obtenerDatosFormulario f) ''nombre'' = Inr (JStr (trim (nombre_value f)))"
      by (simp add: datos)
    moreover have "2 \<le> length (trim (trim (nombre_value f)))"
      using ok(1) by (simp add: trim_idem)
    moreover have "get_prop (obtenerDatosFormulario f) ''email'' = Inr (JStr (trim (email_value f)))"
      by (simp add: datos)
    ultimately have v: "validarDatosUsuario E (obtenerDatosFormulario f) True = Inr ()"
      using ok(2) pw by (rule validarDatosUsuario_edit_null)
    {
      assume "positive_integer ident"
      then obtain shown where s: "ToString E ident = Inr shown"
        using positive_integer_ToString by blast
      have "fst (actualizarUsuario E net ident (obtenerDatosFormulario f))
             = [\<lparr>req_method = ''PUT'', req_url = BASE_URL @ ''/'' @ shown,
                        req_headers = HEADERS,
                        req_body = Some (obtenerDatosFormulario f)\<rparr>]"
        using v s \<open>positive_integer ident\<close>
        by (simp add: actualizarUsuario_def id_invalido_iff Let_def)
      with s have "\<exists>shown. ToString E ident = Inr shown
                \<and> fst (actualizarUsuario E net ident (obtenerDatosFormulario f))
                    = [\<lparr>req_method = ''PUT'', req_url = BASE_URL @ ''/'' @ shown,
                        req_headers = HEADERS,
                        req_body = Some (JObj [(''nombre'', JStr (trim (nombre_value f))),
                                               (''email'', JStr (trim (email_value f))),
                                               (''password'', JNull)])\<rparr>]"
        using datos by simp
    }
    with v have "validarDatosUsuario E (obtenerDatosFormulario f) True = Inr ()
        \<and> (positive_integer ident \<longrightarrow>
             (\<exists>shown. ToString E ident = Inr shown
                \<and> fst (actualizarUsuario E net ident (obtenerDatosFormulario f))
                    = [\<lparr>req_method = ''PUT'', req_url = BASE_URL @ ''/'' @ shown,
                        req_headers = HEADERS,
                        req_body = Some (JObj [(''nombre'', JStr (trim (nombre_value f))),
                                               (''email'', JStr (trim (email_value f))),
                                               (''password'', JNull)])\<rparr>]))"
      by blast
  }
  with pw show ?thesis by blast
qed

theorem edit_with_empty_password_witness:
  "trim (password_value \<lparr>nombre_value = ''Juan Perez'', email_value = ''juan@example.com'',
                             password_value = ''  ''\<rparr>) = []
   \<and> get_prop (obtenerDatosFormulario \<lparr>nombre_value = ''Juan Perez'',
         email_value = ''juan@example.com'', password_value = ''  ''\<rparr>) ''password'' = Inr JNull
   \<and> 2 \<le> length (trim (nombre_value \<lparr>nombre_value = ''Juan Perez'',
         email_value = ''juan@example.com'', password_value = ''  ''\<rparr>))
   \<and> esEmailValido decimal_engine (JStr (trim (email_value \<lparr>nombre_value = ''Juan Perez'',
         email_value = ''juan@example.com'', password_value = ''  ''\<rparr>))) = Inr True
   \<and> validarDatosUsuario decimal_engine (obtenerDatosFormulario \<lparr>nombre_value = ''Juan Perez'',
         email_value = ''juan@example.com'', password_value = ''  ''\<rparr>) True = Inr ()
   \<and> positive_integer (JNum (Fin 3))
   \<and> fst (actualizarUsuario decimal_engine (\<lambda>q. Hangs) (JNum (Fin 3))
        (obtenerDatosFormulario \<lparr>nombre_value = ''Juan Perez'',
           email_value = ''juan@example.com'', password_value = ''  ''\<rparr>))
      = [\<lparr>req_method = ''PUT'', req_url = BASE_URL @ ''/3'', req_headers = HEADERS,
          req_body = Some (JObj [(''nombre'', JStr ''Juan Perez''),
                                 (''email'', JStr ''juan@example.com''),
                                 (''password'', JNull)])\<rparr>]"
proof -
  have t: "trim ''  '' = []" "trim ''Juan Perez'' = ''Juan Perez''"
    "trim ''juan@example.com'' = ''juan@example.com''"
    by (simp_all add: trim_def is_space_def)
  have e: "esEmailValido decimal_engine (JStr ''juan@example.com'') = Inr True"
    by (simp add: email_eval)
  have p: "positive_integer (JNum (Fin 3))"
    by (simp add: positive_integer_def)
  have s: "ToString decimal_engine (JNum (Fin 3)) = Inr ''3''"
    by (simp add: decimal_engine_def)
  show ?thesis
    using t e p s
      edit_with_empty_password [of "\<lparr>nombre_value = ''Juan Perez'',
         email_value = ''juan@example.com'', password_value = ''  ''\<rparr>"
         decimal_engine "JNum (Fin 3)" "\<lambda>q. Hangs"]
    by simp
qed

section \<open>Messages for errors\<close>

text \<open>
  Claim C7. The message that \<open>manejarError\<close> shows: for an \<open>ApiError\<close> with status 400
  the error's message behind the prefix that announces a validation error; with 404 the fixed
  text \<open>Usuario no encontrado\<close>; with 409 the error's message; with 500 a fixed text;
  with any other status the error's message; for another error with a non-empty
  message, that message; otherwise the generic message passed in.
\<close>

theorem manejarError_message:
  "fst (manejarError (ApiError m 400 d) g) = ''Error de validaci'' @ [CHR 0xF3] @ ''n: '' @ m
   \<and> fst (manejarError (ApiError m 404 d) g) = ''Usuario no encontrado''
   \<and> fst (manejarError (ApiError m 409 d) g) = m
   \<and> fst (manejarError (ApiError m 500 d) g) = ''Error interno del servidor. Intente nuevamente.''
   \<and> (st \<notin> {400, 404, 409, 500} \<longrightarrow> fst (manejarError (ApiError m st d) g) = m)
   \<and> (m \<noteq> [] \<longrightarrow> fst (manejarError (JsError n m) g) = m)
   \<and> fst (manejarError (JsError n []) g) = g"
  by (simp add: manejarError_def)

theorem manejarError_message_witness:
  "(408::int) \<notin> {400, 404, 409, 500}
   \<and> fst (manejarError (ApiError msg_timeout 408 JNull) ''Error al cargar los usuarios'') = msg_timeout
   \<and> ''Failed to fetch'' \<noteq> []
   \<and> fst (manejarError (JsError ''TypeError'' ''Failed to fetch'') ''Error al cargar los usuarios'')
      = ''Failed to fetch''"
  using manejarError_message [of msg_timeout JNull "''Error al cargar los usuarios''" 408
          "''TypeError''"]
        manejarError_message [of "''Failed to fetch''" JNull "''Error al cargar los usuarios''" 408
          "''TypeError''"]
  by simp

section \<open>Escaping\<close>

text \<open>What \<open>escaparHTML\<close> does escape: its result holds no \<open><\<close> and no \<open>>\<close>.\<close>

lemma escaparHTML_angle_brackets:
  assumes "escaparHTML E v = Inr t"
  shows "CHR ''<'' \<notin> set t \<and> CHR ''>'' \<notin> set t"
proof -
  from assms obtain s where "t = innerHTML s"
    by (auto simp: escaparHTML_def andThen_def split: sum.splits)
  then show ?thesis
    by (auto simp: innerHTML_def escape_char_def split: if_splits)
qed

text \<open>
  Claim C2. The claim asks that \<open>escaparHTML\<close> encode each of \<open><\<close>, \<open>>\<close>, \<open>&\<close>, the double
  quote and the single quote. On the string made of a double quote and a single quote
  it returns the string unchanged.
\<close>

theorem escaparHTML_quotes:
  "escaparHTML E (JStr [CHR 0x22, CHR 0x27]) = Inr [CHR 0x22, CHR 0x27]"
  by (simp add: escaparHTML_def set_textContent_def innerHTML_def escape_char_def andThen_def)

end
